theory Spec2Isabelle
  imports Main
begin

section \<open>Python string helpers used by the GeoServer publisher\<close>

text \<open>
  Strings are Python \<open>str\<close> values restricted to single-byte characters.
  \<open>endswith\<close> is \<open>str.endswith\<close> and \<open>strip_chars cs\<close> is \<open>str.strip(cs)\<close>,
  which removes every leading and every trailing character that occurs in \<open>cs\<close>.
\<close>

definition endswith :: "string \<Rightarrow> string \<Rightarrow> bool" where
  "endswith s suf = (length suf \<le> length s \<and> drop (length s - length suf) s = suf)"

definition strip_chars :: "string \<Rightarrow> string \<Rightarrow> string" where
  "strip_chars cs s =
     rev (dropWhile (\<lambda>c. c \<in> set cs) (rev (dropWhile (\<lambda>c. c \<in> set cs) s)))"

section \<open>GeoserverServer.__init__: the stored base URL\<close>

text \<open>
  The constructor's treatment of its \<open>url\<close> argument (geoserver.py, lines 44-50):
  an empty url is stored unchanged; otherwise the test \<open>url.endswith("rest")\<close> is made
  on the url as supplied, and only afterwards the slashes are stripped.
\<close>

definition init_url :: "string \<Rightarrow> string" where
  "init_url url =
     (if url \<noteq> [] then
        (if endswith url ''rest'' then strip_chars ''/'' url
         else strip_chars ''/'' url @ ''/rest'')
      else url)"

section \<open>More Python helpers: paths, case, containment\<close>

text \<open>
  \<open>basename\<close> and \<open>splitext\<close> follow \<open>posixpath\<close>: the extension starts at the last dot
  of the last path component, unless only dots precede it there.
\<close>

definition basename :: "string \<Rightarrow> string" where
  "basename p = rev (takeWhile (\<lambda>c. c \<noteq> CHR ''/'') (rev p))"

definition splitext :: "string \<Rightarrow> string \<times> string" where
  "splitext p =
     (let tl = basename p;
          hd = take (length p - length tl) p;
          ext = rev (takeWhile (\<lambda>c. c \<noteq> CHR ''.'') (rev tl));
          k = length tl - length ext - 1
      in if CHR ''.'' \<in> set tl \<and> list_ex (\<lambda>c. c \<noteq> CHR ''.'') (take k tl)
         then (hd @ take k tl, drop k tl)
         else (p, []))"



definition is_substring :: "string \<Rightarrow> string \<Rightarrow> bool" where
  "is_substring t s = list_ex (\<lambda>i. take (length t) (drop i s) = t) [0..<Suc (length s)]"

section \<open>Values exchanged with the server\<close>

text \<open>
  A Python float is kept as mantissa and binary exponent; no arithmetic on floats is
  modelled. A JSON object is the dict that \<open>json.loads\<close> built: lookup takes the first
  binding of a key.
\<close>

datatype pyfloat = PyFloat int int

datatype json =
    JNull
  | JBool bool
  | JInt int
  | JFloat pyfloat
  | JStr string
  | JArr "json list"
  | JObj "(string \<times> json) list"

datatype exn =
    RequestError
  | TypeError
  | KeyError
  | ValueError
  | AttributeError
  | IndexError
  | IOError
  | Exception string

text \<open>\<open>v[key]\<close> for a string key.\<close>

fun getitem :: "json \<Rightarrow> string \<Rightarrow> exn + json" where
  "getitem (JObj kvs) k = (case map_of kvs k of None \<Rightarrow> Inl KeyError | Some v \<Rightarrow> Inr v)"
| "getitem _ k = Inl TypeError"

text \<open>\<open>key in v\<close> for a string key: a dict tests its keys, a list its elements, a string
  its substrings; anything else is not a container.\<close>

fun contains :: "string \<Rightarrow> json \<Rightarrow> exn + bool" where
  "contains k (JObj kvs) = Inr (k \<in> set (map fst kvs))"
| "contains k (JArr xs) = Inr (JStr k \<in> set xs)"
| "contains k (JStr s) = Inr (is_substring k s)"
| "contains k _ = Inl TypeError"

text \<open>The elements a \<open>for\<close> loop sees: a dict yields its keys, a string its characters.\<close>

fun iterate :: "json \<Rightarrow> exn + json list" where
  "iterate (JArr xs) = Inr xs"
| "iterate (JObj kvs) = Inr (map (\<lambda>kv. JStr (fst kv)) kvs)"
| "iterate (JStr s) = Inr (map (\<lambda>c. JStr [c]) s)"
| "iterate _ = Inl TypeError"

text \<open>The comprehension \<open>[s["name"] for s in v]\<close>; it stops at the first element that
  fails.\<close>

fun names_from :: "json list \<Rightarrow> exn + json list" where
  "names_from [] = Inr []"
| "names_from (x # xs) =
     (case getitem x ''name'' of
        Inl e \<Rightarrow> Inl e
      | Inr n \<Rightarrow> (case names_from xs of Inl e \<Rightarrow> Inl e | Inr ns \<Rightarrow> Inr (n # ns)))"

definition names_of :: "json \<Rightarrow> exn + json list" where
  "names_of v = (case iterate v of Inl e \<Rightarrow> Inl e | Inr xs \<Rightarrow> names_from xs)"

datatype http_method = GET | PUT | POST | DELETE

datatype payload =
    NoData
  | Raw string
  | Structured json
  | Files "(string \<times> string) list"

record request =
  req_url :: string
  req_method :: http_method
  req_data :: payload
  req_headers :: "(string \<times> string) list"

text \<open>A response that \<open>request\<close> returned: its text, and what \<open>r.json()\<close> gives
  (\<open>None\<close> when the body is not JSON and \<open>json()\<close> raises).\<close>

record response =
  resp_text :: string
  resp_json :: "json option"

section \<open>The server object and its session state\<close>

datatype log_entry = LogInfo string | LogWarning string | LogError string

datatype layer_type = VectorLayer | RasterLayer | OtherLayer

text \<open>What the publisher reads from a QGIS map layer.\<close>

record layer =
  layer_name :: string
  layer_kind :: layer_type
  featureCount :: int
  providerName :: string
  source :: string
  xMinimum :: pyfloat
  xMaximum :: pyfloat
  yMinimum :: pyfloat
  yMaximum :: pyfloat
  crs_authid :: string

text \<open>A PostGIS database profile (\<open>PostgisServer\<close>), as far as the publisher reads it.\<close>

record postgis =
  db_credentials :: "string \<times> string"
  db_host :: string
  db_port :: string
  db_schema :: string
  db_database :: string

text \<open>
  The attributes of a \<open>GeoserverServer\<close>. \<open>_layersCache\<close> is \<open>None\<close> after \<open>_clearCache\<close>
  and otherwise the list of names fetched last; the constructor's empty dict is the empty
  list (both contain nothing). The attributes that only \<open>prepareForPublishing\<close> creates are
  \<open>None\<close> until then, and reading them raises \<open>AttributeError\<close>. \<open>sent\<close> records every
  request handed to the transport, \<open>remote\<close> is the state of the remote server, \<open>logged\<close>
  what was given to \<open>logInfo\<close>, \<open>logWarning\<close> and \<open>logError\<close>.
\<close>

record 'w server =
  url :: string
  storage :: int
  postgisdb :: "string option"
  useOriginalDataSource :: bool
  useVectorTiles :: bool
  layersCache :: "json list option"
  uploadedDatasets :: "(string \<times> string \<times> string) list option"
  exportedLayers :: "(string \<times> string) list option"
  postgisDatastoreExists :: "bool option"
  publishedLayers :: "layer list option"
  logged :: "log_entry list"
  sent :: "request list"
  remote :: 'w

section \<open>Sequencing with exceptions\<close>

text \<open>
  A method takes the object and returns the object as it left it, with either the
  exception that escaped or the value returned. A bare \<open>except:\<close> keeps the mutations
  made before the exception.
\<close>

type_synonym ('a, 'w) py = "'w server \<Rightarrow> (exn + 'a) \<times> 'w server"

definition ret :: "'a \<Rightarrow> ('a, 'w) py" where
  "ret x s = (Inr x, s)"

definition raise :: "exn \<Rightarrow> ('a, 'w) py" where
  "raise e s = (Inl e, s)"

definition bnd :: "('a, 'w) py \<Rightarrow> ('a \<Rightarrow> ('b, 'w) py) \<Rightarrow> ('b, 'w) py" where
  "bnd m f s = (case m s of (Inl e, s') \<Rightarrow> (Inl e, s') | (Inr x, s') \<Rightarrow> f x s')"

definition lift :: "exn + 'a \<Rightarrow> ('a, 'w) py" where
  "lift r s = (r, s)"

definition try_except :: "('a, 'w) py \<Rightarrow> ('a, 'w) py \<Rightarrow> ('a, 'w) py" where
  "try_except m h s = (case m s of (Inl e, s') \<Rightarrow> h s' | (Inr x, s') \<Rightarrow> (Inr x, s'))"

definition log :: "log_entry \<Rightarrow> (unit, 'w) py" where
  "log e s = (Inr (), s\<lparr>logged := logged s @ [e]\<rparr>)"

text \<open>
  The transport: \<open>ServerBase.request\<close> up to the remote server's answer. The remote
  server is a transition function on its own state; \<open>None\<close> is a connectivity failure or
  a non-2xx status, on which \<open>request\<close> raises.
\<close>

type_synonym 'w net = "'w \<Rightarrow> request \<Rightarrow> response option \<times> 'w"

definition request ::
  "'w net \<Rightarrow> string \<Rightarrow> payload \<Rightarrow> http_method \<Rightarrow> (string \<times> string) list \<Rightarrow> (response, 'w) py" where
  "request nt u d m h s =
     (let r = \<lparr>req_url = u, req_method = m, req_data = d, req_headers = h\<rparr>;
          a = nt (remote s) r;
          s' = s\<lparr>sent := sent s @ [r], remote := snd a\<rparr>
      in case fst a of None \<Rightarrow> (Inl RequestError, s') | Some x \<Rightarrow> (Inr x, s'))"

definition response_json :: "response \<Rightarrow> exn + json" where
  "response_json r = (case resp_json r of None \<Rightarrow> Inl ValueError | Some j \<Rightarrow> Inr j)"

text \<open>The \<open>_workspace\<close> property, from the project's file path.\<close>

definition workspace_of :: "string \<Rightarrow> string" where
  "workspace_of path = (if path \<noteq> [] then fst (splitext (basename path)) else [])"

section \<open>The existence probes and the layer cache\<close>

definition clearCache :: "(unit, 'w) py" where
  "clearCache s = (Inr (), s\<lparr>layersCache := None\<rparr>)"

text \<open>The body of the \<open>try\<close> in \<open>_exists\<close> (lines 466-477).\<close>

definition exists_try :: "'w net \<Rightarrow> string \<Rightarrow> string \<Rightarrow> string \<Rightarrow> (bool, 'w) py" where
  "exists_try nt u category name s =
     (if category \<noteq> ''layer'' \<or> layersCache s = None then
        bnd (request nt u NoData GET []) (\<lambda>r.
        bnd (lift (response_json r)) (\<lambda>j.
        bnd (lift (getitem j (category @ ''s''))) (\<lambda>root.
        bnd (lift (contains category root)) (\<lambda>c.
          if c then
            bnd (lift (getitem root category)) (\<lambda>v.
            bnd (lift (names_of v)) (\<lambda>items.
            bnd (\<lambda>t. if category = ''layer''
                      then (Inr (), t\<lparr>layersCache := Some items\<rparr>) else (Inr (), t)) (\<lambda>_.
            ret (JStr name \<in> set items))))
          else ret False)))) s
      else
        (case layersCache s of
           Some items \<Rightarrow> ret (JStr name \<in> set items) s
         | None \<Rightarrow> raise TypeError s))"

definition exists :: "'w net \<Rightarrow> string \<Rightarrow> string \<Rightarrow> string \<Rightarrow> (bool, 'w) py" where
  "exists nt u category name = try_except (exists_try nt u category name) (ret False)"

definition layerExists :: "'w net \<Rightarrow> string \<Rightarrow> string \<Rightarrow> (bool, 'w) py" where
  "layerExists nt ws name s =
     exists nt (url s @ ''/workspaces/'' @ ws @ ''/layers.json'') ''layer'' name s"

definition styleExists :: "'w net \<Rightarrow> string \<Rightarrow> string \<Rightarrow> (bool, 'w) py" where
  "styleExists nt ws name s =
     exists nt (url s @ ''/workspaces/'' @ ws @ ''/styles.json'') ''style'' name s"

definition workspaceExists :: "'w net \<Rightarrow> string \<Rightarrow> (bool, 'w) py" where
  "workspaceExists nt ws s =
     exists nt (url s @ ''/workspaces.json'') ''workspace'' ws s"

definition datastoreExists :: "'w net \<Rightarrow> string \<Rightarrow> string \<Rightarrow> (bool, 'w) py" where
  "datastoreExists nt ws name s =
     exists nt (url s @ ''/workspaces/'' @ ws @ ''/datastores.json'') ''dataStore'' name s"

definition layers :: "'w net \<Rightarrow> string \<Rightarrow> (json list, 'w) py" where
  "layers nt ws s =
     bnd (request nt (url s @ ''/workspaces/'' @ ws @ ''/layers.json'') NoData GET []) (\<lambda>r.
     bnd (lift (response_json r)) (\<lambda>j.
     bnd (lift (getitem j ''layers'')) (\<lambda>root.
     bnd (lift (contains ''layer'' root)) (\<lambda>c.
       if c then bnd (lift (getitem root ''layer'')) (\<lambda>v. lift (names_of v))
       else ret [])))) s"



definition deleteLayer :: "'w net \<Rightarrow> string \<Rightarrow> string \<Rightarrow> bool \<Rightarrow> (unit, 'w) py" where
  "deleteLayer nt ws name recurse s =
     bnd (layerExists nt ws name) (\<lambda>e.
       if e then
         bnd (request nt
               (url s @ ''/workspaces/'' @ ws @ ''/layers/'' @ name @ ''.json?''
                  @ (if recurse then ''recurse=true'' else []))
               NoData DELETE [])
             (\<lambda>_. ret ())
       else ret ()) s"

definition deleteWorkspace :: "'w net \<Rightarrow> string \<Rightarrow> (unit, 'w) py" where
  "deleteWorkspace nt ws s =
     bnd (workspaceExists nt ws) (\<lambda>e.
       if e then
         bnd (request nt (url s @ ''/workspaces/'' @ ws @ ''?recurse=true'') NoData DELETE [])
             (\<lambda>_. clearCache)
       else ret ()) s"

definition ensureWorkspaceExists :: "'w net \<Rightarrow> string \<Rightarrow> (unit, 'w) py" where
  "ensureWorkspaceExists nt ws s =
     bnd (workspaceExists nt ws) (\<lambda>e.
       if \<not> e then
         bnd (request nt (url s @ ''/workspaces'')
               (Structured (JObj [(''workspace'', JObj [(''name'', JStr ws)])])) POST [])
             (\<lambda>_. ret ())
       else ret ()) s"

section \<open>Session start and style publication\<close>

text \<open>\<open>prepareForPublishing\<close> (lines 69-76).\<close>

definition prepareForPublishing :: "'w net \<Rightarrow> string \<Rightarrow> bool \<Rightarrow> (unit, 'w) py" where
  "prepareForPublishing nt ws onlySymbology =
     bnd (if \<not> onlySymbology then deleteWorkspace nt ws else ret ()) (\<lambda>_.
     bnd (ensureWorkspaceExists nt ws) (\<lambda>_.
     (\<lambda>s. (Inr (), s\<lparr>uploadedDatasets := Some [], exportedLayers := Some [],
                      postgisDatastoreExists := Some False, publishedLayers := Some []\<rparr>))))"

text \<open>\<open>open(filename).read()\<close>: \<open>rd\<close> gives the content of a local file, or \<open>None\<close> when it
  cannot be opened.\<close>

definition read_file :: "(string \<Rightarrow> string option) \<Rightarrow> string \<Rightarrow> (string, 'w) py" where
  "read_file rd f = (case rd f of None \<Rightarrow> raise IOError | Some c \<Rightarrow> ret c)"



text \<open>\<open>_setLayerStyle\<close> (lines 605-614): assigning \<open>layer["layer"]["defaultStyle"]\<close> needs
  \<open>layer["layer"]\<close> to be a dict.\<close>

fun setitem :: "json \<Rightarrow> string \<Rightarrow> json \<Rightarrow> exn + json" where
  "setitem (JObj kvs) k v =
     Inr (JObj (if k \<in> set (map fst kvs)
                then map (\<lambda>kv. if fst kv = k then (k, v) else kv) kvs
                else kvs @ [(k, v)]))"
| "setitem _ k v = Inl TypeError"

definition setLayerStyle :: "'w net \<Rightarrow> string \<Rightarrow> string \<Rightarrow> string \<Rightarrow> (unit, 'w) py" where
  "setLayerStyle nt ws layername stylename s =
     (let u = url s @ ''/workspaces/'' @ ws @ ''/layers/'' @ layername @ ''.json'';
          styleUrl = url s @ ''/workspaces/'' @ ws @ ''/styles/'' @ stylename @ ''.json''
      in bnd (request nt u NoData GET []) (\<lambda>r.
         bnd (lift (response_json r)) (\<lambda>layer.
         bnd (lift (getitem layer ''layer'')) (\<lambda>inner.
         bnd (lift (setitem inner ''defaultStyle''
                      (JObj [(''name'', JStr stylename), (''href'', JStr styleUrl)]))) (\<lambda>inner'.
         bnd (lift (setitem layer ''layer'' inner')) (\<lambda>layer'.
         bnd (request nt u (Structured layer') PUT []) (\<lambda>_. ret ()))))))) s"

definition deleteDatastore :: "'w net \<Rightarrow> string \<Rightarrow> string \<Rightarrow> (unit, 'w) py" where
  "deleteDatastore nt ws name s =
     try_except
       (bnd (request nt (url s @ ''/workspaces/'' @ ws @ ''/datastores/'' @ name @ ''?recurse=true'')
              NoData DELETE []) (\<lambda>_. ret ()))
       (ret ()) s"

section \<open>The server version check\<close>

text \<open>
  \<open>int(s)\<close> on a string, base 10: surrounding whitespace is dropped, one sign is allowed,
  and the digits may be grouped by single underscores. \<open>None\<close> is the \<open>ValueError\<close>.
  The whitespace \<open>int\<close> drops is tab to carriage return, the space, and of the characters
  above 127 the next-line and no-break-space characters; the separators 28 to 31 are not
  dropped and make the string invalid.
\<close>

definition is_space :: "char \<Rightarrow> bool" where
  "is_space c =
     (let n = (of_char c :: nat) in (9 \<le> n \<and> n \<le> 13) \<or> n = 32 \<or> n = 133 \<or> n = 160)"

definition is_digit :: "char \<Rightarrow> bool" where
  "is_digit c = (let n = (of_char c :: nat) in 48 \<le> n \<and> n \<le> 57)"

fun grouped :: "string \<Rightarrow> bool" where
  "grouped [] = True"
| "grouped [c] = is_digit c"
| "grouped (c # d # cs) =
     ((is_digit c \<or> (c = CHR ''_'' \<and> is_digit d)) \<and> grouped (d # cs))"

definition digits_value :: "string \<Rightarrow> int" where
  "digits_value ds =
     foldl (\<lambda>a c. 10 * a + (int (of_char c) - 48)) 0 (filter is_digit ds)"

definition py_int :: "string \<Rightarrow> int option" where
  "py_int s =
     (let t = rev (dropWhile is_space (rev (dropWhile is_space s)));
          neg = (t \<noteq> [] \<and> hd t = CHR ''-'');
          ds = (if t \<noteq> [] \<and> (hd t = CHR ''-'' \<or> hd t = CHR ''+'') then tl t else t)
      in if ds \<noteq> [] \<and> is_digit (hd ds) \<and> grouped ds
         then Some (if neg then - digits_value ds else digits_value ds)
         else None)"

text \<open>\<open>s.split(sep)\<close> for a one-character separator.\<close>

fun split_on :: "char \<Rightarrow> string \<Rightarrow> string list" where
  "split_on sep [] = [[]]"
| "split_on sep (c # cs) =
     (if c = sep then [] # split_on sep cs
      else (case split_on sep cs of
              [] \<Rightarrow> [[c]]
            | p # ps \<Rightarrow> (c # p) # ps))"

text \<open>\<open>next((x["Version"] for x in result if x["@name"] == 'GeoServer'), None)\<close>.\<close>

fun first_version :: "json list \<Rightarrow> exn + json option" where
  "first_version [] = Inr None"
| "first_version (x # xs) =
     (case getitem x ''@name'' of
        Inl e \<Rightarrow> Inl e
      | Inr n \<Rightarrow>
          if n = JStr ''GeoServer''
          then (case getitem x ''Version'' of Inl e \<Rightarrow> Inl e | Inr v \<Rightarrow> Inr (Some v))
          else first_version xs)"

definition cannot_connect :: string where
  "cannot_connect =
     ''Could not connect to Geoserver.  Please check the server settings (including password).''"

definition version_too_old :: "string \<Rightarrow> string" where
  "version_too_old ver =
     ''Geoserver 2.14.0 or later is required.  Selected Geoserver is version '' @ [CHR 0x27]
     @ ver @ [CHR 0x27] @ ''.  Please see <a href='' @ [CHR 0x27]
     @ ''https://my.geocat.net/knowledgebase/100/Bridge-4-compatibility-with-Geoserver-2134-and-before.html''
     @ [CHR 0x27] @ ''>Bridge 4 Compatibility with Geoserver 2.13.4 and before</a>''"

text \<open>The second \<open>try\<close> block of \<open>checkMinGeoserverVersion\<close> (lines 663-670): the errors to
  add for the fetched resource list.\<close>

definition version_errors :: "json \<Rightarrow> exn + string list" where
  "version_errors result =
     (case iterate result of
        Inl e \<Rightarrow> Inl e
      | Inr xs \<Rightarrow>
          (case first_version xs of
             Inl e \<Rightarrow> Inl e
           | Inr None \<Rightarrow> Inr []
           | Inr (Some JNull) \<Rightarrow> Inr []
           | Inr (Some (JStr ver)) \<Rightarrow>
               (case split_on CHR ''.'' ver of
                  [ver_major, ver_minor, ver_patch] \<Rightarrow>
                    (case py_int ver_minor of
                       None \<Rightarrow> Inl ValueError
                     | Some m \<Rightarrow> if m \<le> 13 then Inr [version_too_old ver] else Inr [])
                | _ \<Rightarrow> Inl ValueError)
           | Inr (Some _) \<Rightarrow> Inl AttributeError))"

text \<open>\<open>errors\<close> is the caller's set of messages; the method returns it as it leaves it.\<close>

definition checkMinGeoserverVersion :: "'w net \<Rightarrow> string list \<Rightarrow> (string list, 'w) py" where
  "checkMinGeoserverVersion nt errors s =
     bnd (try_except
            (bnd (request nt (url s @ ''/about/version.json'') NoData GET []) (\<lambda>r.
             bnd (lift (response_json r)) (\<lambda>j.
             bnd (lift (getitem j ''about'')) (\<lambda>a.
             bnd (lift (getitem a ''resource'')) (\<lambda>result. ret (Some result))))))
            (ret None))
       (\<lambda>fetched.
          case fetched of
            None \<Rightarrow> ret (List.insert cannot_connect errors)
          | Some result \<Rightarrow>
              try_except
                (bnd (lift (version_errors result)) (\<lambda>es.
                   ret (foldl (\<lambda>acc e. List.insert e acc) errors es)))
                (ret errors)) s"

text \<open>A server that only answers the version request, reporting GeoServer version \<open>v\<close>.\<close>

definition reports_version :: "string \<Rightarrow> unit net" where
  "reports_version v w r =
     (if req_method r = GET \<and> req_url r = ''http://gs/rest/about/version.json''
      then (Some \<lparr>resp_text = [],
                   resp_json = Some (JObj [(''about'', JObj [(''resource'',
                     JArr [JObj [(''@name'', JStr ''GeoServer''), (''Version'', JStr v)],
                           JObj [(''@name'', JStr ''GeoTools''), (''Version'', JStr ''24.0'')]])])])\<rparr>,
            w)
      else (None, w))"

section \<open>Publishing a layer\<close>

text \<open>
  The collaborators \<open>publishLayer\<close> calls: the layer exporter (its second argument is
  \<open>toShapefile\<close>), the writer of the zipped shapefile bundle for a base name, the local
  file system, the GeoPackage's first geometry table, the configured servers, the
  database profile's \<open>importLayer\<close>, the profile built from a postgres layer's source uri,
  Python's \<open>round(x, 5)\<close> on floats, and \<open>"%s" % v\<close> for a value that is not a string.
  The \<open>fields\<close> argument is only handed on to the exporter and to \<open>importLayer\<close>.
\<close>

record collab =
  exportLayer :: "layer \<Rightarrow> bool \<Rightarrow> exn + string"
  zipBundle :: "string \<Rightarrow> exn + unit"
  readFile :: "string \<Rightarrow> string option"
  gpkgTable :: "string \<Rightarrow> exn + string"
  allServers :: "(string \<times> postgis) list"
  importLayer :: "postgis \<Rightarrow> layer \<Rightarrow> exn + unit"
  sourceDb :: "layer \<Rightarrow> postgis"
  round5 :: "pyfloat \<Rightarrow> pyfloat"
  str_of :: "json \<Rightarrow> string"

definition fmt :: "collab \<Rightarrow> json \<Rightarrow> string" where
  "fmt c v = (case v of JStr s \<Rightarrow> s | _ \<Rightarrow> str_of c v)"

text \<open>Reading an attribute that \<open>prepareForPublishing\<close> has not created yet.\<close>

definition attr :: "('w server \<Rightarrow> 'a option) \<Rightarrow> ('a, 'w) py" where
  "attr f s = (case f s of None \<Rightarrow> (Inl AttributeError, s) | Some v \<Rightarrow> (Inr v, s))"

text \<open>\<open>d[k] = v\<close> on a dict kept as an association list.\<close>

definition assign :: "'k \<Rightarrow> 'v \<Rightarrow> ('k \<times> 'v) list \<Rightarrow> ('k \<times> 'v) list" where
  "assign k v kvs =
     (if k \<in> set (map fst kvs) then map (\<lambda>kv. if fst kv = k then (k, v) else kv) kvs
      else kvs @ [(k, v)])"

definition lookup :: "('k \<times> 'v) list \<Rightarrow> 'k \<Rightarrow> exn + 'v" where
  "lookup kvs k = (case map_of kvs k of None \<Rightarrow> Inl KeyError | Some v \<Rightarrow> Inr v)"

text \<open>\<open>ft[k1][k2] = v\<close>.\<close>

definition update_in :: "json \<Rightarrow> string \<Rightarrow> string \<Rightarrow> json \<Rightarrow> exn + json" where
  "update_in ft k1 k2 v =
     (case getitem ft k1 of
        Inl e \<Rightarrow> Inl e
      | Inr inner \<Rightarrow>
          (case setitem inner k2 v of Inl e \<Rightarrow> Inl e | Inr inner' \<Rightarrow> setitem ft k1 inner'))"

text \<open>\<open>ws, name = self.postgisdb.split(":")\<close>.\<close>

definition split_postgisdb :: "(string \<times> string, 'w) py" where
  "split_postgisdb s =
     (case postgisdb s of
        None \<Rightarrow> (Inl AttributeError, s)
      | Some p \<Rightarrow> (case split_on CHR '':'' p of
                    [a, b] \<Rightarrow> (Inr (a, b), s)
                  | _ \<Rightarrow> (Inl ValueError, s)))"

definition set_uploaded :: "string \<Rightarrow> string \<times> string \<Rightarrow> (unit, 'w) py" where
  "set_uploaded filename v =
     bnd (attr uploadedDatasets) (\<lambda>m s. (Inr (), s\<lparr>uploadedDatasets := Some (assign filename v m)\<rparr>))"

definition set_exported :: "string \<Rightarrow> string \<Rightarrow> (unit, 'w) py" where
  "set_exported src path =
     bnd (attr exportedLayers) (\<lambda>m s. (Inr (), s\<lparr>exportedLayers := Some (assign src path m)\<rparr>))"

text \<open>\<open>_publishVectorLayerFromFile\<close> (lines 220-255).\<close>

definition nativeBoundingBox :: "collab \<Rightarrow> layer \<Rightarrow> json" where
  "nativeBoundingBox c layer =
     JObj [(''minx'', JFloat (round5 c (xMinimum layer))),
           (''maxx'', JFloat (round5 c (xMaximum layer))),
           (''miny'', JFloat (round5 c (yMinimum layer))),
           (''maxy'', JFloat (round5 c (yMaximum layer))),
           (''srs'', JStr (crs_authid layer))]"

definition publishVectorLayerFromFile ::
  "'w net \<Rightarrow> string \<Rightarrow> collab \<Rightarrow> layer \<Rightarrow> string \<Rightarrow> (unit, 'w) py" where
  "publishVectorLayerFromFile nt ws c layer filename s =
     (let name = layer_name layer; here = url s @ ''/workspaces/'' @ ws in
      bnd (log (LogInfo (''Publishing layer from file: '' @ filename))) (\<lambda>_.
      bnd (attr uploadedDatasets) (\<lambda>up.
      let isDataUploaded = (filename \<in> set (map fst up)) in
      bnd (if \<not> isDataUploaded then
             bnd (read_file (readFile c) filename) (\<lambda>content.
             bnd (deleteDatastore nt ws name) (\<lambda>_.
             bnd (request nt (here @ ''/datastores/'' @ name @ ''/file.gpkg?update=overwrite'')
                    (Raw content) PUT []) (\<lambda>_.
             bnd (lift (gpkgTable c filename)) (\<lambda>tablename.
             set_uploaded filename (name, tablename)))))
           else ret ()) (\<lambda>_.
      bnd (attr uploadedDatasets) (\<lambda>up'.
      bnd (lift (lookup up' filename)) (\<lambda>ds.
      let u = here @ ''/datastores/'' @ fst ds @ ''/featuretypes/'' @ snd ds @ ''.json'' in
      bnd (request nt u NoData GET []) (\<lambda>r.
      bnd (lift (response_json r)) (\<lambda>ft0.
      bnd (lift (update_in ft0 ''featureType'' ''name'' (JStr name))) (\<lambda>ft1.
      bnd (lift (update_in ft1 ''featureType'' ''title'' (JStr name))) (\<lambda>ft2.
      bnd (lift (update_in ft2 ''featureType'' ''nativeBoundingBox''
                   (nativeBoundingBox c layer))) (\<lambda>ft.
      bnd (if isDataUploaded
           then request nt (here @ ''/datastores/'' @ fst ds @ ''/featuretypes'')
                  (Structured ft) POST []
           else request nt u (Structured ft) PUT []) (\<lambda>_.
      bnd (log (LogInfo (''Feature type correctly created from GPKG file '' @ [CHR 0x27]
                          @ filename @ [CHR 0x27]))) (\<lambda>_.
      setLayerStyle nt ws name name)))))))))))) s)"

text \<open>\<open>_publishVectorLayerFromPostgis\<close> (lines 257-292).\<close>

definition entry :: "string \<Rightarrow> string \<Rightarrow> json" where
  "entry k v = JObj [(''@key'', JStr k), (''$'', JStr v)]"

definition publishVectorLayerFromPostgis ::
  "'w net \<Rightarrow> string \<Rightarrow> layer \<Rightarrow> postgis \<Rightarrow> (unit, 'w) py" where
  "publishVectorLayerFromPostgis nt ws layer db s =
     (let name = layer_name layer; here = url s @ ''/workspaces/'' @ ws;
          ds = JObj [(''dataStore'', JObj
                 [(''name'', JStr name), (''type'', JStr ''PostGIS''), (''enabled'', JBool True),
                  (''connectionParameters'', JObj [(''entry'', JArr
                     [entry ''schema'' (db_schema db), entry ''port'' (db_port db),
                      entry ''database'' (db_database db),
                      entry ''passwd'' (snd (db_credentials db)),
                      entry ''user'' (fst (db_credentials db)), entry ''host'' (db_host db),
                      entry ''dbtype'' ''postgis''])])])];
          ft = JObj [(''featureType'',
                 JObj [(''name'', JStr name), (''srs'', JStr (crs_authid layer))])]
      in
      bnd (request nt (here @ ''/datastores/'') (Structured ds) POST []) (\<lambda>_.
      bnd (request nt (here @ ''/datastores/'' @ name @ ''/featuretypes'') (Structured ft) POST [])
        (\<lambda>_.
      setLayerStyle nt ws name name)) s)"

text \<open>\<open>createPostgisDatastore\<close> (lines 192-203).\<close>

definition createPostgisDatastore :: "'w net \<Rightarrow> string \<Rightarrow> (unit, 'w) py" where
  "createPostgisDatastore nt ws s =
     bnd split_postgisdb (\<lambda>p.
     bnd (datastoreExists nt ws (snd p)) (\<lambda>e.
       if \<not> e then
         bnd (request nt (url s @ ''/workspaces/'' @ fst p @ ''/datastores/'' @ snd p @ ''.json'')
                NoData GET []) (\<lambda>r.
         bnd (lift (response_json r)) (\<lambda>j.
         bnd (lift (getitem j ''dataStore'')) (\<lambda>datastore.
         bnd (lift (getitem datastore ''name'')) (\<lambda>n.
         bnd (lift (getitem datastore ''type'')) (\<lambda>t.
         bnd (lift (getitem datastore ''connectionParameters'')) (\<lambda>cp.
         bnd (request nt (url s @ ''/workspaces/'' @ ws @ ''/datastores'')
                (Structured (JObj [(''dataStore'',
                   JObj [(''name'', n), (''type'', t), (''connectionParameters'', cp),
                         (''enabled'', JBool True)])])) POST []) (\<lambda>_. ret ())))))))
       else ret ())) s"

text \<open>\<open>_publishVectorLayerFromFileToPostgis\<close> (lines 294-350).\<close>

definition publishVectorLayerFromFileToPostgis ::
  "'w net \<Rightarrow> string \<Rightarrow> collab \<Rightarrow> layer \<Rightarrow> string \<Rightarrow> (unit, 'w) py" where
  "publishVectorLayerFromFileToPostgis nt ws c layer filename s =
     (let name = layer_name layer; here = url s @ ''/workspaces/'' @ ws in
      bnd (log (LogInfo (''Publishing layer from file: '' @ filename))) (\<lambda>_.
      bnd (createPostgisDatastore nt ws) (\<lambda>_.
      bnd split_postgisdb (\<lambda>p.
      let datastoreName = snd p in
      bnd (attr uploadedDatasets) (\<lambda>up.
      bnd (if filename \<notin> set (map fst up) then
             bnd (request nt (url s @ ''/imports'')
                    (Structured (JObj [(''import'', JObj
                       [(''targetStore'', JObj [(''dataStore'',
                           JObj [(''name'', JStr datastoreName)])]),
                        (''targetWorkspace'', JObj [(''workspace'',
                           JObj [(''name'', JStr ws)])])])])) POST []) (\<lambda>r.
             bnd (lift (response_json r)) (\<lambda>j.
             bnd (lift (getitem j ''import'')) (\<lambda>i.
             bnd (lift (getitem i ''id'')) (\<lambda>importId.
             bnd (read_file (readFile c) filename) (\<lambda>content.
             bnd (request nt (url s @ ''/imports/'' @ fmt c importId @ ''/tasks'')
                    (Files [(basename filename, content)]) POST []) (\<lambda>r'.
             bnd (lift (response_json r')) (\<lambda>j'.
             bnd (lift (getitem j' ''task'')) (\<lambda>t.
             bnd (lift (getitem t ''id'')) (\<lambda>taskId.
             bnd (request nt (url s @ ''/imports/'' @ fmt c importId @ ''/tasks/''
                               @ fmt c taskId @ ''/target'')
                    (Structured (JObj [(''dataStore'', JObj [(''name'', JStr datastoreName)])]))
                    PUT []) (\<lambda>_.
             bnd (request nt (url s @ ''/imports/'' @ fmt c importId) NoData POST []) (\<lambda>_.
             set_uploaded filename
               (datastoreName, fst (splitext (basename filename))))))))))))))
           else ret ()) (\<lambda>_.
      bnd (attr uploadedDatasets) (\<lambda>up'.
      bnd (lift (lookup up' filename)) (\<lambda>ds.
      let u = here @ ''/datastores/'' @ fst ds @ ''/featuretypes/'' @ snd ds @ ''.json'' in
      bnd (request nt u NoData GET []) (\<lambda>r.
      bnd (lift (response_json r)) (\<lambda>ft0.
      bnd (lift (update_in ft0 ''featureType'' ''name'' (JStr name))) (\<lambda>ft1.
      bnd (lift (update_in ft1 ''featureType'' ''title'' (JStr name))) (\<lambda>ft.
      bnd (try_except
             (bnd (request nt (here @ ''/datastores/'' @ fst ds @ ''/featuretypes'')
                     (Structured ft) POST []) (\<lambda>_. ret ()))
             (bnd (request nt u (Structured ft) PUT []) (\<lambda>_. ret ()))) (\<lambda>_.
      bnd (log (LogInfo (''Feature type correctly created from GPKG file '' @ [CHR 0x27]
                          @ filename @ [CHR 0x27]))) (\<lambda>_.
      setLayerStyle nt ws name name))))))))))))) s)"

text \<open>\<open>_publishRasterLayer\<close> (lines 352-359).\<close>

definition publishRasterLayer ::
  "'w net \<Rightarrow> string \<Rightarrow> collab \<Rightarrow> string \<Rightarrow> string \<Rightarrow> (unit, 'w) py" where
  "publishRasterLayer nt ws c filename layername s =
     bnd (ensureWorkspaceExists nt ws) (\<lambda>_.
     bnd (read_file (readFile c) filename) (\<lambda>content.
     bnd (request nt (url s @ ''/workspaces/'' @ ws @ ''/coveragestores/'' @ layername
                        @ ''/file.geotiff'') (Raw content) PUT []) (\<lambda>_.
     bnd (log (LogInfo (''Feature type correctly created from Tiff file '' @ [CHR 0x27]
                         @ filename @ [CHR 0x27]))) (\<lambda>_.
     setLayerStyle nt ws layername layername)))) s"

text \<open>The file a layer's source was exported to in this session, exporting it first when
  the source is new (lines 157-170 and 185-188).\<close>

definition exported_file :: "collab \<Rightarrow> layer \<Rightarrow> bool \<Rightarrow> (string, 'w) py" where
  "exported_file c layer shapefile =
     bnd (attr exportedLayers) (\<lambda>ex.
     bnd (if source layer \<notin> set (map fst ex) then
            (if shapefile then
               bnd (lift (exportLayer c layer True)) (\<lambda>path.
               bnd (lift (zipBundle c (fst (splitext path)))) (\<lambda>_.
               set_exported (source layer) (fst (splitext path) @ ''.zip'')))
             else
               bnd (lift (exportLayer c layer False)) (\<lambda>path.
               set_exported (source layer) path))
          else ret ()) (\<lambda>_.
     bnd (attr exportedLayers) (\<lambda>ex'. lift (lookup ex' (source layer)))))"

text \<open>\<open>publishLayer\<close> (lines 145-190). The storage strategies are \<open>FILE_BASED = 0\<close>,
  \<open>POSTGIS_MANAGED_BY_BRIDGE = 1\<close> and \<open>POSTGIS_MANAGED_BY_GEOSERVER = 2\<close>.\<close>

definition publishLayer :: "'w net \<Rightarrow> string \<Rightarrow> collab \<Rightarrow> layer \<Rightarrow> (unit, 'w) py" where
  "publishLayer nt ws c layer s =
     (if layer_kind layer = VectorLayer \<and> featureCount layer = 0 then
        log (LogError ''Layer contains zero features and cannot be published'') s
      else
        bnd (if layer_kind layer = VectorLayer then
               (if providerName layer = ''postgres'' \<and> useOriginalDataSource s then
                  publishVectorLayerFromPostgis nt ws layer (sourceDb c layer)
                else if storage s = 0 \<or> storage s = 2 then
                  bnd (exported_file c layer (storage s = 2)) (\<lambda>filename.
                    if storage s = 0 then publishVectorLayerFromFile nt ws c layer filename
                    else publishVectorLayerFromFileToPostgis nt ws c layer filename)
                else if storage s = 1 then
                  bnd (case postgisdb s of
                         None \<Rightarrow> raise (Exception ''Cannot find the selected PostGIS database'')
                       | Some k \<Rightarrow>
                           (case map_of (allServers c) k of
                              None \<Rightarrow> raise (Exception ''Cannot find the selected PostGIS database'')
                            | Some db \<Rightarrow> ret db)) (\<lambda>db.
                  bnd (lift (importLayer c db layer)) (\<lambda>_.
                  publishVectorLayerFromPostgis nt ws layer db))
                else ret ())
             else if layer_kind layer = RasterLayer then
               bnd (exported_file c layer False) (\<lambda>filename.
               publishRasterLayer nt ws c filename (layer_name layer))
             else ret ())
          (\<lambda>_. clearCache) s)"

section \<open>Layer groups\<close>

text \<open>
  A group of the layer tree is a dict whose keys \<open>name\<close>, \<open>title\<close>, \<open>abstract\<close> and \<open>layers\<close>
  may each be missing; a member of \<open>layers\<close> is either a dict (a nested group) or a layer
  name.
\<close>

datatype tree = Tree (tree_name: "string option") (tree_title: "string option")
                     (tree_abstract: "string option") (tree_layers: "item list option")
and item = Layer string | Nested tree















section \<open>The constructor\<close>

text \<open>\<open>GeoserverServer.__init__\<close> (lines 31-59); \<open>w\<close> is the remote server the object will
  talk to.\<close>

definition GeoserverServer ::
  "string \<Rightarrow> int \<Rightarrow> string option \<Rightarrow> bool \<Rightarrow> bool \<Rightarrow> 'w \<Rightarrow> 'w server" where
  "GeoserverServer u st pg orig vt w =
     \<lparr>url = init_url u, storage = st, postgisdb = pg, useOriginalDataSource = orig,
      useVectorTiles = vt, layersCache = Some [], uploadedDatasets = None,
      exportedLayers = None, postgisDatastoreExists = None, publishedLayers = None,
      logged = [], sent = [], remote = w\<rparr>"

section \<open>A small remote server to run the publisher against\<close>

text \<open>
  A stand-in for a GeoServer with one REST base url \<open>b\<close> and one workspace name \<open>ws\<close> of
  interest: it lists workspaces, layers and styles the way GeoServer does (an empty
  collection is the empty string), deletes layers and workspaces, creates workspaces and
  styles, refuses to create a style twice, and answers every other request with a failure.
\<close>

record gs =
  gs_workspaces :: "string list"
  gs_layers :: "string list"
  gs_styles :: "string list"

definition listing :: "string \<Rightarrow> string list \<Rightarrow> response" where
  "listing category names =
     \<lparr>resp_text = [],
      resp_json = Some (JObj [(category @ ''s'',
        if names = [] then JStr []
        else JObj [(category, JArr (map (\<lambda>n. JObj [(''name'', JStr n)]) names))])])\<rparr>"

definition done_response :: response where
  "done_response = \<lparr>resp_text = [], resp_json = None\<rparr>"

definition stub_geoserver :: "string \<Rightarrow> string \<Rightarrow> gs net" where
  "stub_geoserver b ws w r =
     (let u = req_url r; m = req_method r; here = b @ ''/workspaces/'' @ ws;
          known = ws \<in> set (gs_workspaces w)
      in
      if m = GET \<and> u = b @ ''/workspaces.json''
        then (Some (listing ''workspace'' (gs_workspaces w)), w)
      else if m = GET \<and> u = here @ ''/layers.json'' \<and> known
        then (Some (listing ''layer'' (gs_layers w)), w)
      else if m = GET \<and> u = here @ ''/styles.json'' \<and> known
        then (Some (listing ''style'' (gs_styles w)), w)
      else if m = DELETE \<and> known
              \<and> u \<in> set (map (\<lambda>n. here @ ''/layers/'' @ n @ ''.json?recurse=true'') (gs_layers w))
        then (Some done_response,
              w\<lparr>gs_layers :=
                  filter (\<lambda>n. here @ ''/layers/'' @ n @ ''.json?recurse=true'' \<noteq> u) (gs_layers w)\<rparr>)
      else if m = POST \<and> known \<and> take (length (here @ ''/styles?name='')) u = here @ ''/styles?name=''
        then (let n = drop (length (here @ ''/styles?name='')) u
              in if n \<in> set (gs_styles w) then (None, w)
                 else (Some done_response, w\<lparr>gs_styles := gs_styles w @ [n]\<rparr>))
      else if m = PUT \<and> known \<and> u \<in> set (map (\<lambda>n. here @ ''/styles/'' @ n) (gs_styles w))
        then (Some done_response, w)
      else if m = DELETE \<and> known \<and> u = here @ ''?recurse=true''
        then (Some done_response,
              \<lparr>gs_workspaces = filter (\<lambda>n. n \<noteq> ws) (gs_workspaces w),
               gs_layers = [], gs_styles = []\<rparr>)
      else if m = POST \<and> \<not> known \<and> u = b @ ''/workspaces''
        then (Some done_response, w\<lparr>gs_workspaces := gs_workspaces w @ [ws]\<rparr>)
      else (None, w))"

text \<open>A transport on which every request fails.\<close>

definition unreachable :: "unit net" where
  "unreachable w r = (None, w)"

text \<open>A transport that answers every request with a body that is not JSON.\<close>

definition garbled :: "unit net" where
  "garbled w r = (Some done_response, w)"

text \<open>The stand-in server for the project file town.qgz, whose workspace holds two layers
  and no style, and a fresh server object talking to it.\<close>

definition town_net :: "gs net" where
  "town_net = stub_geoserver ''http://gs/rest'' (workspace_of ''/home/me/town.qgz'')"

definition town_server :: "gs server" where
  "town_server = GeoserverServer ''http://gs'' 0 None False False
     \<lparr>gs_workspaces = [''town''], gs_layers = [''roads'', ''rivers''], gs_styles = []\<rparr>"

definition no_workspace_server :: "gs server" where
  "no_workspace_server = GeoserverServer ''http://gs'' 0 None False False
     \<lparr>gs_workspaces = [], gs_layers = [], gs_styles = []\<rparr>"



text \<open>A vector layer without features, and collaborators that are never reached.\<close>

definition empty_layer :: layer where
  "empty_layer =
     \<lparr>layer_name = ''roads'', layer_kind = VectorLayer, featureCount = 0,
      providerName = ''ogr'', source = ''/data/roads.shp'',
      xMinimum = PyFloat 0 0, xMaximum = PyFloat 1 0, yMinimum = PyFloat 0 0,
      yMaximum = PyFloat 1 0, crs_authid = ''EPSG:4326''\<rparr>"

definition idle_collab :: collab where
  "idle_collab =
     \<lparr>exportLayer = (\<lambda>l b. Inl IOError), zipBundle = (\<lambda>p. Inl IOError),
      readFile = (\<lambda>p. None), gpkgTable = (\<lambda>p. Inl IOError), allServers = [],
      importLayer = (\<lambda>d l. Inl IOError),
      sourceDb = (\<lambda>l. \<lparr>db_credentials = ([], []), db_host = [], db_port = [],
                          db_schema = [], db_database = []\<rparr>),
      round5 = (\<lambda>x. x), str_of = (\<lambda>v. [])\<rparr>"

section \<open>Properties\<close>

subsection \<open>What each operation leaves untouched\<close>

lemma request_frame:
  "url (snd (request nt u d m h s)) = url s"
  "layersCache (snd (request nt u d m h s)) = layersCache s"
  "uploadedDatasets (snd (request nt u d m h s)) = uploadedDatasets s"
  "exportedLayers (snd (request nt u d m h s)) = exportedLayers s"
  "publishedLayers (snd (request nt u d m h s)) = publishedLayers s"
  "sent (snd (request nt u d m h s)) = sent s @ [\<lparr>req_url = u, req_method = m, req_data = d, req_headers = h\<rparr>]"
  by (simp_all add: request_def Let_def split: option.splits)

lemma exists_frame:
  "url (snd (exists nt u c n s)) = url s"
  "uploadedDatasets (snd (exists nt u c n s)) = uploadedDatasets s"
  "exportedLayers (snd (exists nt u c n s)) = exportedLayers s"
  "publishedLayers (snd (exists nt u c n s)) = publishedLayers s"
  "sent (snd (exists nt u c n s)) =
     (if c \<noteq> ''layer'' \<or> layersCache s = None
      then sent s @ [\<lparr>req_url = u, req_method = GET, req_data = NoData, req_headers = []\<rparr>]
      else sent s)"
  "c \<noteq> ''layer'' \<Longrightarrow> layersCache (snd (exists nt u c n s)) = layersCache s"
  by (auto simp: exists_def exists_try_def try_except_def ret_def bnd_def request_def Let_def lift_def raise_def
      split: prod.splits sum.splits option.splits if_splits)

lemma workspaceExists_cache:
  "layersCache (snd (workspaceExists nt ws s)) = layersCache s"
  by (simp add: workspaceExists_def exists_frame)

lemma deleteWorkspace_cache:
  assumes "fst (deleteWorkspace nt ws s) = Inr ()"
  shows "layersCache (snd (deleteWorkspace nt ws s))
           = (if fst (workspaceExists nt ws s) = Inr True then None else layersCache s)"
proof -
  obtain r t where w: "workspaceExists nt ws s = (r, t)" by (cases "workspaceExists nt ws s")
  have c: "layersCache t = layersCache s" using workspaceExists_cache [of nt ws s] w by simp
  show ?thesis
  proof (cases r)
    case (Inl e)
    with w assms show ?thesis by (simp add: deleteWorkspace_def bnd_def)
  next
    case (Inr b)
    with w c assms show ?thesis
      by (cases "request nt (url s @ ''/workspaces/'' @ ws @ ''?recurse=true'') NoData DELETE [] t")
         (auto simp: deleteWorkspace_def bnd_def ret_def clearCache_def split: sum.splits)
  qed
qed

lemma ensureWorkspaceExists_cache:
  "layersCache (snd (ensureWorkspaceExists nt ws s)) = layersCache s"
proof -
  obtain r t where w: "workspaceExists nt ws s = (r, t)" by (cases "workspaceExists nt ws s")
  have c: "layersCache t = layersCache s" using workspaceExists_cache [of nt ws s] w by simp
  let ?q = "request nt (url s @ ''/workspaces'')
               (Structured (JObj [(''workspace'', JObj [(''name'', JStr ws)])])) POST [] t"
  have q: "layersCache (snd ?q) = layersCache t" by (simp add: request_frame)
  show ?thesis using w c q
    by (cases r; cases ?q) (auto simp: ensureWorkspaceExists_def bnd_def ret_def split: sum.splits)
qed





lemma town_ws: "workspace_of ''/home/me/town.qgz'' = ''town''"
  by (simp add: workspace_of_def splitext_def basename_def Let_def)

lemmas run_defs = exists_def exists_try_def try_except_def ret_def bnd_def request_def Let_def
      lift_def response_json_def layerExists_def styleExists_def workspaceExists_def deleteLayer_def clearCache_def
      GeoserverServer_def stub_geoserver_def listing_def done_response_def init_url_def
      endswith_def strip_chars_def names_of_def town_net_def town_server_def town_ws
      ensureWorkspaceExists_def deleteWorkspace_def prepareForPublishing_def is_substring_def
      no_workspace_server_def raise_def












lemma bnd_Inr: "m s = (Inr x, t) \<Longrightarrow> bnd m f s = f x t"
  by (simp add: bnd_def)





subsection \<open>The claims\<close>

text \<open>
  C7. The claim is that the stored url ends with "/rest" exactly once for every non-empty
  argument, also when the argument already carries the suffix followed by a slash.
  On the argument "http://localhost:8080/geoserver/rest/" the constructor tests
  \<open>endswith("rest")\<close> before stripping, finds it false, and appends a second "/rest".
\<close>

theorem init_url_trailing_slash_doubles_suffix:
  "init_url ''http://localhost:8080/geoserver/rest/''
     = ''http://localhost:8080/geoserver/rest/rest''"
  by (simp add: init_url_def endswith_def strip_chars_def)

text \<open>
  C1 (layer delete). The claim is that the layer-existence cache is cleared after a layer
  delete, as it is after a workspace delete and a layer publish. \<open>deleteLayer\<close> sends the
  DELETE and leaves the cache as \<open>layerExists\<close> filled it: against a server holding the
  layers roads and rivers, after \<open>deleteLayer "roads"\<close> the server holds rivers only, the
  cache still lists roads, and \<open>layerExists "roads"\<close> answers True without a request.
\<close>

theorem deleteLayer_leaves_stale_cache:
  "(let nt = stub_geoserver ''http://gs/rest'' ''town'';
        s0 = snd (clearCache (GeoserverServer ''http://gs'' 0 None False False
                \<lparr>gs_workspaces = [''town''], gs_layers = [''roads'', ''rivers''],
                 gs_styles = []\<rparr>));
        s1 = snd (deleteLayer nt ''town'' ''roads'' True s0);
        r = layerExists nt ''town'' ''roads'' s1
    in gs_layers (remote s1) = [''rivers'']
       \<and> layersCache s1 = Some [JStr ''roads'', JStr ''rivers'']
       \<and> fst r = Inr True
       \<and> sent (snd r) = sent s1)"
  by (simp add: exists_def exists_try_def try_except_def ret_def bnd_def request_def Let_def
      lift_def response_json_def layerExists_def deleteLayer_def clearCache_def
      GeoserverServer_def stub_geoserver_def listing_def done_response_def init_url_def
      endswith_def strip_chars_def names_of_def)

text \<open>
  C8. The existence checks never raise: \<open>_exists\<close> and the four checks built on it always
  return a boolean, and whenever the probe fails (the request raises on a connectivity
  error or a non-2xx status, the body is not JSON, or anything else in the \<open>try\<close> block
  raises) the answer is False.
\<close>

theorem existence_checks_never_raise:
  "(\<exists>b. fst (exists nt u c n s) = Inr b)
   \<and> (\<exists>b. fst (layerExists nt ws n s) = Inr b)
   \<and> (\<exists>b. fst (styleExists nt ws n s) = Inr b)
   \<and> (\<exists>b. fst (workspaceExists nt ws s) = Inr b)
   \<and> (\<exists>b. fst (datastoreExists nt ws n s) = Inr b)
   \<and> ((c \<noteq> ''layer'' \<or> layersCache s = None)
        \<and> fst (nt (remote s) \<lparr>req_url = u, req_method = GET, req_data = NoData,
                                req_headers = []\<rparr>) = None
       \<longrightarrow> fst (exists nt u c n s) = Inr False)
   \<and> ((c \<noteq> ''layer'' \<or> layersCache s = None)
        \<and> (\<exists>r. fst (nt (remote s) \<lparr>req_url = u, req_method = GET, req_data = NoData,
                                req_headers = []\<rparr>) = Some r \<and> resp_json r = None)
       \<longrightarrow> fst (exists nt u c n s) = Inr False)
   \<and> ((\<exists>e. fst (exists_try nt u c n s) = Inl e) \<longrightarrow> fst (exists nt u c n s) = Inr False)"
proof -
  have total: "\<exists>b. fst (exists nt' u' c' n' s') = Inr b"
    for nt' :: "'a net" and u' c' n' and s' :: "'a server"
    by (auto simp: exists_def try_except_def ret_def split: prod.splits sum.splits)
  have raised: "(\<exists>e. fst (exists_try nt u c n s) = Inl e) \<longrightarrow> fst (exists nt u c n s) = Inr False"
    by (auto simp: exists_def try_except_def ret_def split: prod.splits sum.splits)
  have unreachable: "(c \<noteq> ''layer'' \<or> layersCache s = None)
        \<and> fst (nt (remote s) \<lparr>req_url = u, req_method = GET, req_data = NoData,
                                req_headers = []\<rparr>) = None
       \<longrightarrow> fst (exists nt u c n s) = Inr False"
    by (auto simp: exists_def exists_try_def try_except_def ret_def bnd_def request_def Let_def
        split: prod.splits sum.splits option.splits)
  have malformed: "(c \<noteq> ''layer'' \<or> layersCache s = None)
        \<and> (\<exists>r. fst (nt (remote s) \<lparr>req_url = u, req_method = GET, req_data = NoData,
                                req_headers = []\<rparr>) = Some r \<and> resp_json r = None)
       \<longrightarrow> fst (exists nt u c n s) = Inr False"
    by (auto simp: exists_def exists_try_def try_except_def ret_def bnd_def request_def Let_def
        lift_def response_json_def split: prod.splits sum.splits option.splits)
  show ?thesis
    using total raised unreachable malformed
    unfolding layerExists_def styleExists_def workspaceExists_def datastoreExists_def
    by blast
qed

theorem existence_checks_never_raise_witness:
  "fst (exists unreachable ''http://gs/rest/workspaces/town/styles.json'' ''style'' ''roads''
         (GeoserverServer ''http://gs'' 0 None False False ())) = Inr False
   \<and> fst (exists garbled ''http://gs/rest/workspaces/town/styles.json'' ''style'' ''roads''
         (GeoserverServer ''http://gs'' 0 None False False ())) = Inr False"
proof -
  let ?u = "''http://gs/rest/workspaces/town/styles.json''"
  let ?s = "GeoserverServer ''http://gs'' 0 None False False ()"
  let ?q = "\<lparr>req_url = ?u, req_method = GET, req_data = NoData, req_headers = []\<rparr>"
  have c: "''style'' \<noteq> ''layer''" by simp
  have a: "fst (unreachable (remote ?s) ?q) = None"
    by (simp add: unreachable_def)
  have b: "\<exists>r. fst (garbled (remote ?s) ?q) = Some r \<and> resp_json r = None"
    by (simp add: garbled_def done_response_def)
  have e: "\<exists>e. fst (exists_try unreachable ?u ''style'' ''roads'' ?s) = Inl e"
    by (simp add: exists_try_def bnd_def request_def unreachable_def Let_def)
  from existence_checks_never_raise [of unreachable ?u "''style''" "''roads''" ?s] a c e
  have 1: "fst (exists unreachable ?u ''style'' ''roads'' ?s) = Inr False" by blast
  from existence_checks_never_raise [of garbled ?u "''style''" "''roads''" ?s] b c
  have 2: "fst (exists garbled ?u ''style'' ''roads'' ?s) = Inr False" by blast
  from 1 2 show ?thesis by blast
qed



text \<open>
  C6, as stated: after \<open>prepareForPublishing\<close> returns, the layer-existence cache is reset
  too, for both values of \<open>onlySymbology\<close>. With \<open>onlySymbology\<close> true the workspace is
  kept and the cache filled by an earlier \<open>layerExists\<close> survives the call.
\<close>

theorem prepareForPublishing_keeps_layer_cache:
  "fst (prepareForPublishing town_net ''town'' True
          (snd (layerExists town_net ''town'' ''roads'' (snd (clearCache town_server))))) = Inr ()
   \<and> layersCache (snd (prepareForPublishing town_net ''town'' True
          (snd (layerExists town_net ''town'' ''roads'' (snd (clearCache town_server))))))
       = Some [JStr ''roads'', JStr ''rivers'']"
  by (simp add: run_defs)

text \<open>
  C6, amended: whenever \<open>prepareForPublishing\<close> returns, for both values of
  \<open>onlySymbology\<close>, the exported-layers map, the uploaded-datasets map and the
  published-layer set are empty; the layer-existence cache is cleared when the workspace
  was found and deleted (\<open>onlySymbology\<close> false) and is otherwise what it was before.
\<close>

theorem prepareForPublishing_resets_session_maps:
  assumes ok: "fst (prepareForPublishing nt ws onlySymbology s) = Inr ()"
  shows "exportedLayers (snd (prepareForPublishing nt ws onlySymbology s)) = Some []
   \<and> uploadedDatasets (snd (prepareForPublishing nt ws onlySymbology s)) = Some []
   \<and> publishedLayers (snd (prepareForPublishing nt ws onlySymbology s)) = Some []
   \<and> layersCache (snd (prepareForPublishing nt ws onlySymbology s))
       = (if \<not> onlySymbology \<and> fst (workspaceExists nt ws s) = Inr True then None else layersCache s)"
proof -
  let ?d = "(if \<not> onlySymbology then deleteWorkspace nt ws else ret ()) s"
  obtain r1 s1 where d: "?d = (r1, s1)" by (cases ?d)
  obtain r2 s2 where e: "ensureWorkspaceExists nt ws s1 = (r2, s2)"
    by (cases "ensureWorkspaceExists nt ws s1")
  from ok d have r1: "r1 = Inr ()"
    by (cases r1) (simp_all add: prepareForPublishing_def bnd_def)
  from ok d e r1 have r2: "r2 = Inr ()"
    by (cases r2) (simp_all add: prepareForPublishing_def bnd_def)
  have c1: "layersCache s1
     = (if \<not> onlySymbology \<and> fst (workspaceExists nt ws s) = Inr True then None else layersCache s)"
  proof (cases onlySymbology)
    case True
    with d show ?thesis by (simp add: ret_def)
  next
    case False
    with d r1 have "fst (deleteWorkspace nt ws s) = Inr ()" and "s1 = snd (deleteWorkspace nt ws s)"
      by simp_all
    with deleteWorkspace_cache [of nt ws s] False show ?thesis by simp
  qed
  have c2: "layersCache s2 = layersCache s1"
    using ensureWorkspaceExists_cache [of nt ws s1] e by simp
  have fin: "prepareForPublishing nt ws onlySymbology s
      = (Inr (), s2\<lparr>uploadedDatasets := Some [], exportedLayers := Some [],
                      postgisDatastoreExists := Some False, publishedLayers := Some []\<rparr>)"
    using d e r1 r2 by (simp add: prepareForPublishing_def bnd_def)
  show ?thesis using fin c1 c2 by simp
qed

theorem prepareForPublishing_resets_session_maps_witness:
  "exportedLayers (snd (prepareForPublishing town_net ''town'' False town_server)) = Some []
   \<and> uploadedDatasets (snd (prepareForPublishing town_net ''town'' False town_server)) = Some []
   \<and> publishedLayers (snd (prepareForPublishing town_net ''town'' False town_server)) = Some []
   \<and> layersCache (snd (prepareForPublishing town_net ''town'' False town_server)) = None
   \<and> layersCache (snd (prepareForPublishing town_net ''town'' True town_server)) = Some []"
proof -
  have a: "fst (prepareForPublishing town_net ''town'' False town_server) = Inr ()"
    by (simp add: run_defs)
  have b: "fst (prepareForPublishing town_net ''town'' True town_server) = Inr ()"
    by (simp add: run_defs)
  have w: "fst (workspaceExists town_net ''town'' town_server) = Inr True"
    by (simp add: run_defs)
  have c: "layersCache town_server = Some []"
    by (simp add: town_server_def GeoserverServer_def)
  from prepareForPublishing_resets_session_maps [of town_net "''town''" False town_server] a w
       prepareForPublishing_resets_session_maps [of town_net "''town''" True town_server] b c
  show ?thesis by simp
qed



text \<open>
  C3. The claim is that an error is added exactly when the reported version is below
  2.14.0, versions of a higher major included among the accepted ones. The check reads
  the minor number alone: a server reporting 3.5.0 gets the message that 2.14.0 or later
  is required, and a server reporting 1.20.0 is accepted.
\<close>

theorem checkMinGeoserverVersion_ignores_major:
  "fst (checkMinGeoserverVersion (reports_version ''3.5.0'') []
          (GeoserverServer ''http://gs'' 0 None False False ()))
     = Inr [version_too_old ''3.5.0'']
   \<and> fst (checkMinGeoserverVersion (reports_version ''1.20.0'') []
          (GeoserverServer ''http://gs'' 0 None False False ()))
     = Inr []"
  by (simp add: checkMinGeoserverVersion_def try_except_def bnd_def ret_def lift_def request_def
      response_json_def reports_version_def GeoserverServer_def init_url_def endswith_def
      strip_chars_def version_errors_def py_int_def is_space_def is_digit_def digits_value_def
      Let_def)

text \<open>
  C4. For a vector layer with a feature count of 0, \<open>publishLayer\<close> returns after
  reporting one error: no request is handed to the transport, the remote server is as it
  was, and the exported-layers map, the uploaded-datasets map, the published-layer set and
  the layer-existence cache are unchanged.
\<close>

theorem publishLayer_zero_features_is_skipped:
  "layer_kind layer = VectorLayer \<and> featureCount layer = 0 \<longrightarrow>
     publishLayer nt ws c layer s
       = (Inr (), s\<lparr>logged := logged s
                      @ [LogError ''Layer contains zero features and cannot be published'']\<rparr>)
     \<and> sent (snd (publishLayer nt ws c layer s)) = sent s
     \<and> remote (snd (publishLayer nt ws c layer s)) = remote s
     \<and> exportedLayers (snd (publishLayer nt ws c layer s)) = exportedLayers s
     \<and> uploadedDatasets (snd (publishLayer nt ws c layer s)) = uploadedDatasets s
     \<and> publishedLayers (snd (publishLayer nt ws c layer s)) = publishedLayers s
     \<and> layersCache (snd (publishLayer nt ws c layer s)) = layersCache s"
  by (simp add: publishLayer_def log_def)

theorem publishLayer_zero_features_is_skipped_witness:
  "fst (publishLayer town_net ''town'' idle_collab empty_layer town_server) = Inr ()
   \<and> logged (snd (publishLayer town_net ''town'' idle_collab empty_layer town_server))
       = [LogError ''Layer contains zero features and cannot be published'']
   \<and> sent (snd (publishLayer town_net ''town'' idle_collab empty_layer town_server)) = []
   \<and> remote (snd (publishLayer town_net ''town'' idle_collab empty_layer town_server))
       = \<lparr>gs_workspaces = [''town''], gs_layers = [''roads'', ''rivers''], gs_styles = []\<rparr>
   \<and> layersCache (snd (publishLayer town_net ''town'' idle_collab empty_layer town_server))
       = Some []"
proof -
  have h: "layer_kind empty_layer = VectorLayer \<and> featureCount empty_layer = 0"
    by (simp add: empty_layer_def)
  have s: "logged town_server = []" "sent town_server = []" "layersCache town_server = Some []"
    "remote town_server
       = \<lparr>gs_workspaces = [''town''], gs_layers = [''roads'', ''rivers''], gs_styles = []\<rparr>"
    by (simp_all add: town_server_def GeoserverServer_def)
  from publishLayer_zero_features_is_skipped [of empty_layer town_net "''town''" idle_collab town_server] h s
  show ?thesis by simp
qed




end
